theory Spec2Isabelle
  imports
    Complex_Main
    "HOL-Library.Char_ord"
    "HOL-Library.List_Lexorder"
    "HOL-Library.Option_ord"
    "HOL-Library.Product_Lexorder"
begin

section \<open>Python and SQL values\<close>

text \<open>
  A nullable TEXT column (and a Python value that is either \<open>None\<close> or a \<open>str\<close>) is a
  \<open>string option\<close>. Python's truth test \<open>if v:\<close> holds for a non-empty string only.
\<close>

definition truthy :: "string option \<Rightarrow> bool" where
  "truthy v = (case v of None \<Rightarrow> False | Some s \<Rightarrow> s \<noteq> [])"

text \<open>\<open>s.rstrip('_')\<close>: every trailing underscore is removed.\<close>

definition rstrip_underscore :: "string \<Rightarrow> string" where
  "rstrip_underscore s = rev (dropWhile (\<lambda>c. c = CHR ''_'') (rev s))"

text \<open>\<open>sep.join(xs)\<close>.\<close>

fun str_join :: "string \<Rightarrow> string list \<Rightarrow> string" where
  "str_join sep [] = []"
| "str_join sep [x] = x"
| "str_join sep (x # y # ys) = x @ sep @ str_join sep (y # ys)"

text \<open>
  A character of the model is a code point below 256. \<open>s.strip()\<close> removes at both ends
  the characters for which \<open>str.isspace\<close> holds: among the code points below 256 these are
  tab, line feed, vertical tab, form feed, carriage return, the four separators 28 to 31,
  the space, the next-line character 133 and the no-break space 160.
\<close>

definition is_space :: "char \<Rightarrow> bool" where
  "is_space c = (of_char c \<in> {9, 10, 11, 12, 13, 28, 29, 30, 31, 32, 133, 160 :: nat})"

definition strip :: "string \<Rightarrow> string" where
  "strip s = rev (dropWhile is_space (rev (dropWhile is_space s)))"

text \<open>
  An INTEGER of SQLite has 64 bits: \<open>sqlite3\<close> raises \<open>OverflowError\<close> when it is given a
  Python integer outside this range as a parameter.
\<close>

definition fits_int64 :: "int \<Rightarrow> bool" where
  "fits_int64 n = (- (2 ^ 63) \<le> n \<and> n < 2 ^ 63)"

subsection \<open>Double precision\<close>

text \<open>
  A Python \<open>float\<close> is an IEEE 754 double. A finite double is kept as the rational number
  it denotes, and every operation returns the double nearest to the exact result, a tie
  going to the even significand (53 binary digits). The range of the exponent is not
  modelled: the numbers of this program, 64-bit integers divided by \<open>10^6\<close> and added to
  a weight of at most 1600, stay inside it.
\<close>

text \<open>The number of binary digits of a positive integer.\<close>

function bit_length :: "int \<Rightarrow> int" where
  "bit_length n = (if n \<le> 0 then 0 else 1 + bit_length (n div 2))"
  by pat_completeness auto
termination
  by (relation "measure nat") (auto simp: int_div_less_self)

declare bit_length.simps [simp del]

definition pow2 :: "int \<Rightarrow> rat" where
  "pow2 k = (if 0 \<le> k then 2 ^ nat k else 1 / 2 ^ nat (- k))"

text \<open>For \<open>x > 0\<close>, the exponent \<open>e\<close> with \<open>2^e \<le> x < 2^(e+1)\<close>.\<close>

definition exponent_of :: "rat \<Rightarrow> int" where
  "exponent_of x =
     (case quotient_of x of (p, q) \<Rightarrow>
        (let e = bit_length p - bit_length q
         in if pow2 e \<le> x then e else e - 1))"

definition round_half_even :: "rat \<Rightarrow> int" where
  "round_half_even y =
     (let f = \<lfloor>y\<rfloor>; r = y - of_int f
      in if r < 1 / 2 then f else if 1 / 2 < r then f + 1 else if even f then f else f + 1)"

definition round_double :: "rat \<Rightarrow> rat" where
  "round_double x =
     (if x = 0 then 0
      else (let ulp = pow2 (exponent_of \<bar>x\<bar> - 52)
            in of_int (round_half_even (x / ulp)) * ulp))"

text \<open>\<open>float(n)\<close> of an integer, and the division and the addition of two doubles.\<close>

definition float_of_int :: "int \<Rightarrow> rat" where
  "float_of_int n = round_double (of_int n)"

definition float_div :: "rat \<Rightarrow> rat \<Rightarrow> rat" where
  "float_div x y = round_double (x / y)"

definition float_add :: "rat \<Rightarrow> rat \<Rightarrow> rat" where
  "float_add x y = round_double (x + y)"

section \<open>The catalog database (db\_config.py, INIT\_SCHEMA)\<close>

text \<open>
  One record per table row, one field per column, in the order of the schema. A table is
  the list of its rows in rowid order, which is the order in which SQLite scans it.
  The column \<open>hot_rank\<close> is read and written by the collector but declared nowhere in the
  repository; it is taken as a rank position, \<open>0\<close> meaning that the record has none.
\<close>

record vod_row =
  vod_id :: int
  res_unique_id :: string
  res_source_id :: int
  vod_name :: string
  vod_en :: "string option"
  vod_type_id :: int
  vod_pic :: "string option"
  vod_remarks :: "string option"
  vod_blurb :: "string option"
  vod_play_url :: "string option"
  vod_play_from :: "string option"
  vod_actor :: "string option"
  vod_director :: "string option"
  vod_year :: "string option"
  vod_area :: "string option"
  vod_lang :: "string option"
  vod_class :: "string option"
  vod_time :: int
  vod_time_hits :: int
  vod_hits :: int
  hot_rank :: nat

text \<open>
  \<open>sc_config\<close>: \<open>res_mapping\<close> is kept as the dictionary that \<open>json.loads\<close> returns for
  it (the empty one when the column is NULL, empty or not JSON).
\<close>

record config_row =
  cfg_source_id :: int
  res_name :: string
  res_url :: string
  data_format :: string
  res_id_prefix :: string
  res_mapping :: "(string \<times> int) list"
  operation_mode :: string

record merge_log_row =
  primary_vod_id :: int
  merged_vod_ids :: "int list"
  source_prefixes :: string
  merge_timestamp :: int
  merge_key :: string

text \<open>
  \<open>sc_vod_seq\<close> is the \<open>sqlite_sequence\<close> entry of \<open>sc_vod\<close>: the largest \<open>vod_id\<close> that
  AUTOINCREMENT has handed out so far. \<open>hot_rank_column\<close> says whether \<open>sc_vod\<close> has the
  column \<open>hot_rank\<close> (\<open>PRAGMA table_info\<close>).
\<close>

record db =
  sc_vod :: "vod_row list"
  sc_vod_seq :: int
  hot_rank_column :: bool
  sc_search :: "(int \<times> string) list"
  sc_config :: "config_row list"
  sc_merge_log :: "merge_log_row list"

section \<open>Deduplication (merge\_dedupe.py)\<close>

subsection \<open>find\_duplicate\_groups\<close>

text \<open>
  \<open>GROUP BY vod_name, vod_year HAVING COUNT(*) > 1 ORDER BY dup_count DESC\<close>. SQLite forms
  the groups in the order of their keys (the title, then the year, text by its bytes and
  NULL before every text) and sorts them by their count, which keeps groups of the same
  count in key order; \<open>GROUP_CONCAT\<close> lists the ids of a group in table order.
\<close>

type_synonym dup_key = "string \<times> string option"

definition key_of :: "vod_row \<Rightarrow> dup_key" where
  "key_of r = (vod_name r, vod_year r)"

definition group_ids :: "vod_row list \<Rightarrow> dup_key \<Rightarrow> int list" where
  "group_ids rows k = map vod_id (filter (\<lambda>r. key_of r = k) rows)"

definition find_duplicate_groups :: "db \<Rightarrow> (dup_key \<times> int list) list" where
  "find_duplicate_groups d =
     sort_key (\<lambda>(k, ids). - int (length ids))
       (filter (\<lambda>(k, ids). length ids > 1)
          (map (\<lambda>k. (k, group_ids (sc_vod d) k)) (sort (remdups (map key_of (sc_vod d))))))"

subsection \<open>select\_primary\_record\<close>

text \<open>\<open>SELECT ... FROM sc_vod WHERE vod_id IN (vod_ids)\<close>, in table order.\<close>

definition rows_in :: "db \<Rightarrow> int list \<Rightarrow> vod_row list" where
  "rows_in d vod_ids = filter (\<lambda>r. vod_id r \<in> set vod_ids) (sc_vod d)"

text \<open>
  The score of one row. The three weights are added as integers; \<open>vod_time / 1000000.0\<close>
  turns the time stamp into a double and divides in double precision, and the last
  \<open>+=\<close> adds the two in double precision.
\<close>

definition weight :: "vod_row \<Rightarrow> int" where
  "weight row =
     (if truthy (vod_play_url row) then 1000 else 0)
     + (if truthy (vod_blurb row) then 500 else 0)
     + (if truthy (vod_pic row) then 100 else 0)"

definition score :: "vod_row \<Rightarrow> rat" where
  "score row =
     float_add (float_of_int (weight row)) (float_div (float_of_int (vod_time row)) 1000000)"

text \<open>The loop over the rows, carrying \<open>(best_vod_id, best_score)\<close>.\<close>

fun select_loop :: "vod_row list \<Rightarrow> int option \<times> rat \<Rightarrow> int option \<times> rat" where
  "select_loop [] best = best"
| "select_loop (row # rows) (best_vod_id, best_score) =
     (if score row > best_score
      then select_loop rows (Some (vod_id row), score row)
      else select_loop rows (best_vod_id, best_score))"

definition select_primary_record :: "db \<Rightarrow> int list \<Rightarrow> int option" where
  "select_primary_record d vod_ids = fst (select_loop (rows_in d vod_ids) (None, - 1))"

subsection \<open>merge\_play\_data\<close>

text \<open>
  \<open>FROM sc_vod v JOIN sc_config c ON v.res_source_id = c.res_source_id WHERE v.vod_id
  IN (vod_ids)\<close>: a row of \<open>sc_vod\<close> whose source has no row in \<open>sc_config\<close> is not part of
  the result.
\<close>

definition rows_with_config :: "db \<Rightarrow> int list \<Rightarrow> (vod_row \<times> config_row) list" where
  "rows_with_config d vod_ids =
     concat (map (\<lambda>v. map (\<lambda>c. (v, c))
                         (filter (\<lambda>c. cfg_source_id c = res_source_id v) (sc_config d)))
                 (rows_in d vod_ids))"

text \<open>
  The dictionary \<open>sources_data\<close>, as the list of its items in insertion order: a prefix is
  entered once, by the first row that has play data for it.
\<close>

fun collect_sources ::
  "(vod_row \<times> config_row) list \<Rightarrow> (string \<times> string \<times> string) list
   \<Rightarrow> (string \<times> string \<times> string) list" where
  "collect_sources [] sources_data = sources_data"
| "collect_sources ((v, c) # rows) sources_data =
     (let source_prefix = rstrip_underscore (res_id_prefix c) in
      if truthy (vod_play_url v) \<and> map_of sources_data source_prefix = None
      then collect_sources rows
             (sources_data @ [(source_prefix, (source_prefix, the (vod_play_url v)))])
      else collect_sources rows sources_data)"

definition merge_play_data :: "db \<Rightarrow> int list \<Rightarrow> string \<times> string" where
  "merge_play_data d vod_ids =
     (let sources_data = collect_sources (rows_with_config d vod_ids) [];
          entries = map (\<lambda>k. the (map_of sources_data k)) (sort (map fst sources_data))
      in (str_join ''$$$'' (map fst entries), str_join ''$$$'' (map snd entries)))"

subsection \<open>merge\_duplicate\_group\_with\_log and auto\_merge\<close>

datatype error = IntegrityError | OperationalError | ValueError | TypeError | OverflowError

record merge_stats =
  primary_id :: int
  deleted_count :: nat
  sources :: string

text \<open>
  When no row was selected, \<open>primary_id\<close> is \<open>None\<close>: the UPDATE matches no row and the
  INSERT into \<open>sc_merge_log\<close> violates \<open>primary_vod_id INTEGER NOT NULL\<close>, so the function
  raises before anything is written. \<open>now\<close> is \<open>int(time.time())\<close>.
\<close>

definition merge_duplicate_group_with_log ::
  "db \<Rightarrow> int \<Rightarrow> int list \<Rightarrow> string \<Rightarrow> error + (db \<times> merge_stats)" where
  "merge_duplicate_group_with_log d now vod_ids mkey =
     (case select_primary_record d vod_ids of
        None \<Rightarrow> Inl IntegrityError
      | Some pid \<Rightarrow>
          (let duplicate_ids = filter (\<lambda>vid. vid \<noteq> pid) vod_ids;
               prefixes = str_join '','' (map (\<lambda>(v, c). rstrip_underscore (res_id_prefix c))
                                             (rows_with_config d vod_ids));
               (merged_from, merged_url) = merge_play_data d vod_ids;
               updated = map (\<lambda>r. if vod_id r = pid
                                   then r\<lparr>vod_play_from := Some merged_from,
                                          vod_play_url := Some merged_url\<rparr>
                                   else r) (sc_vod d);
               entry = \<lparr>primary_vod_id = pid, merged_vod_ids = vod_ids,
                        source_prefixes = prefixes, merge_timestamp = now, merge_key = mkey\<rparr>
           in Inr (d\<lparr>sc_vod := filter (\<lambda>r. vod_id r \<notin> set duplicate_ids) updated,
                     sc_search := filter (\<lambda>(vid, t). vid \<notin> set duplicate_ids) (sc_search d),
                     sc_merge_log := sc_merge_log d @ [entry]\<rparr>,
                   \<lparr>primary_id = pid, deleted_count = length duplicate_ids,
                    sources = prefixes\<rparr>)))"

text \<open>\<open>f"{vod_name}|{vod_year}"\<close>: a NULL year prints as \<open>None\<close>.\<close>

definition merge_key_of :: "dup_key \<Rightarrow> string" where
  "merge_key_of k = fst k @ ''|'' @ (case snd k of None \<Rightarrow> ''None'' | Some y \<Rightarrow> y)"

record auto_merge_stats =
  groups_merged :: nat
  records_deleted :: nat

text \<open>
  The groups are computed once, before the loop. A group whose merge raises is reported
  and skipped; the loop goes on with the database as it was.
\<close>

fun auto_merge_loop ::
  "(dup_key \<times> int list) list \<Rightarrow> int \<Rightarrow> db \<times> auto_merge_stats \<Rightarrow> db \<times> auto_merge_stats" where
  "auto_merge_loop [] now acc = acc"
| "auto_merge_loop ((k, vod_ids) # groups) now (d, st) =
     (case merge_duplicate_group_with_log d now vod_ids (merge_key_of k) of
        Inl e \<Rightarrow> auto_merge_loop groups now (d, st)
      | Inr (d', res) \<Rightarrow>
          auto_merge_loop groups now
            (d', \<lparr>groups_merged = groups_merged st + 1,
                  records_deleted = records_deleted st + deleted_count res\<rparr>))"

definition auto_merge :: "db \<Rightarrow> int \<Rightarrow> db \<times> auto_merge_stats" where
  "auto_merge d now =
     auto_merge_loop (find_duplicate_groups d) now
       (d, \<lparr>groups_merged = 0, records_deleted = 0\<rparr>)"

section \<open>Hot-rank reconciliation (collector.py, sync\_hot\_rank\_to\_new\_records)\<close>

text \<open>\<open>SELECT DISTINCT vod_name FROM sc_vod WHERE hot_rank > 0\<close>.\<close>

definition hot_names :: "db \<Rightarrow> string list" where
  "hot_names d = remdups (map vod_name (filter (\<lambda>r. hot_rank r > 0) (sc_vod d)))"

text \<open>\<open>SELECT ... WHERE vod_name = ? ORDER BY vod_time DESC, vod_id DESC\<close>.\<close>

definition records_of_name :: "db \<Rightarrow> string \<Rightarrow> vod_row list" where
  "records_of_name d name =
     sort_key (\<lambda>r. (- vod_time r, - vod_id r)) (filter (\<lambda>r. vod_name r = name) (sc_vod d))"

text \<open>The maximum of the positive ranks of the records, \<open>0\<close> when there is none.\<close>

definition target_rank_of :: "vod_row list \<Rightarrow> nat" where
  "target_rank_of records =
     fold (\<lambda>r target_rank. if hot_rank r > 0 then max target_rank (hot_rank r) else target_rank)
       records 0"

text \<open>
  One turn of the loop over the names, carrying the database and \<open>migrated_count\<close>. The
  two UPDATE statements run in the order of the source: all records of the name to
  \<open>0\<close>, then the newest to the target rank.
\<close>

fun sync_name :: "string \<Rightarrow> db \<times> nat \<Rightarrow> db \<times> nat" where
  "sync_name name (d, migrated_count) =
     (case records_of_name d name of
        [] \<Rightarrow> (d, migrated_count)
      | newest # older \<Rightarrow>
          (let target_rank = target_rank_of (newest # older);
               needs_update = (hot_rank newest \<noteq> target_rank \<or> list_ex (\<lambda>r. hot_rank r > 0) older)
           in if \<not> needs_update then (d, migrated_count)
              else (d\<lparr>sc_vod :=
                        map (\<lambda>r. if vod_id r = vod_id newest then r\<lparr>hot_rank := target_rank\<rparr> else r)
                          (map (\<lambda>r. if vod_name r = name then r\<lparr>hot_rank := 0\<rparr> else r) (sc_vod d))\<rparr>,
                    migrated_count + 1)))"

definition sync_hot_rank_to_new_records :: "db \<Rightarrow> db \<times> nat" where
  "sync_hot_rank_to_new_records d =
     (if \<not> hot_rank_column d then (d, 0) else fold sync_name (hot_names d) (d, 0))"

section \<open>Upstream payloads\<close>

text \<open>
  A JSON value read with \<open>dict.get\<close> where the code expects text: the key is absent, the
  value is \<open>null\<close>, or it is a string. For \<open>vod_id\<close> and \<open>type_id\<close>, which the code reads
  through \<open>str\<close>, a number is the same as the string that \<open>str\<close> makes of it. Where the
  code expects a number: the key is absent, the value is \<open>null\<close>, an integer, a string that
  \<open>int\<close> accepts (with the integer it denotes), or a string that \<open>int\<close> rejects. Values of
  the other JSON types are outside the model.
\<close>

datatype jtext = TAbsent | TNull | TStr string

datatype jnum = JAbsent | JNull | JInt int | JNumStr int | JBadStr

text \<open>\<open>vod.get(key, default)\<close> as it is stored in a TEXT column.\<close>

fun get_text :: "jtext \<Rightarrow> string \<Rightarrow> string option" where
  "get_text TAbsent dflt = Some dflt"
| "get_text TNull dflt = None"
| "get_text (TStr s) dflt = Some s"

text \<open>\<open>str(v)\<close> and the text of \<open>v\<close> inside an f-string: \<open>None\<close> prints as \<open>None\<close>.\<close>

definition py_str :: "string option \<Rightarrow> string" where
  "py_str v = (case v of None \<Rightarrow> ''None'' | Some s \<Rightarrow> s)"

text \<open>
  \<open>int(vod.get(key, default))\<close>; \<open>None\<close> stands for the exception (\<open>TypeError\<close> for \<open>null\<close>,
  \<open>ValueError\<close> for a string that is no number).
\<close>

fun get_int :: "jnum \<Rightarrow> int \<Rightarrow> int option" where
  "get_int JAbsent dflt = Some dflt"
| "get_int JNull dflt = None"
| "get_int (JInt n) dflt = Some n"
| "get_int (JNumStr n) dflt = Some n"
| "get_int JBadStr dflt = None"

text \<open>
  \<open>f"{v:,}"\<close>, the format of the statistics report: the exception it raises, if any. A
  string cannot be formatted with a thousands separator, and \<open>None\<close> takes no format.
\<close>

fun format_error :: "jnum \<Rightarrow> error option" where
  "format_error JAbsent = None"
| "format_error JNull = Some TypeError"
| "format_error (JInt n) = None"
| "format_error (JNumStr n) = Some ValueError"
| "format_error JBadStr = Some ValueError"

text \<open>
  \<open>s.replace(old, new)\<close> for a non-empty \<open>old\<close>: the occurrences are replaced from left to
  right, without overlap.
\<close>

function replace :: "string \<Rightarrow> string \<Rightarrow> string \<Rightarrow> string" where
  "replace old new s =
     (if old = [] \<or> s = [] then s
      else if take (length old) s = old then new @ replace old new (drop (length old) s)
      else hd s # replace old new (tl s))"
  by pat_completeness auto
termination
  by (relation "measure (\<lambda>(old, new, s). length s)") auto

text \<open>
  One entry of the \<open>list\<close> of a payload. \<open>rv_time\<close> is \<open>None\<close> when the entry has no
  \<open>vod_time\<close> and otherwise the value of \<open>convert_time_to_timestamp\<close> on it.
\<close>

record raw_vod =
  rv_id :: jtext
  rv_name :: jtext
  rv_type_id :: jtext
  rv_en :: jtext
  rv_pic :: jtext
  rv_remarks :: jtext
  rv_blurb :: jtext
  rv_content :: jtext
  rv_actor :: jtext
  rv_director :: jtext
  rv_play_url :: jtext
  rv_play_from :: jtext
  rv_year :: jtext
  rv_area :: jtext
  rv_lang :: jtext
  rv_class :: jtext
  rv_time :: "int option"
  rv_time_hits :: jnum
  rv_hits :: jnum

text \<open>A payload: the keys \<open>code\<close>, \<open>page\<close>, \<open>pagecount\<close>, \<open>total\<close> and \<open>list\<close>.\<close>

record payload =
  p_code :: jnum
  p_page :: jnum
  p_pagecount :: jnum
  p_total :: jnum
  p_list :: "raw_vod list"

section \<open>Ingestion (collector.py, parse\_and\_insert\_vod\_data)\<close>

text \<open>
  \<open>INSERT OR REPLACE INTO sc_vod\<close> without a \<open>vod_id\<close>: a row with the same
  \<open>res_unique_id\<close> is deleted, and the new row gets the next AUTOINCREMENT id, one more
  than the largest id the table ever held. The column \<open>hot_rank\<close> is not among the
  inserted columns and takes its default.
\<close>

definition next_vod_id :: "db \<Rightarrow> int" where
  "next_vod_id d = fold max (map vod_id (sc_vod d)) (sc_vod_seq d) + 1"

definition insert_or_replace_vod :: "vod_row \<Rightarrow> db \<Rightarrow> db" where
  "insert_or_replace_vod row d =
     d\<lparr>sc_vod := filter (\<lambda>r. res_unique_id r \<noteq> res_unique_id row) (sc_vod d)
                   @ [row\<lparr>vod_id := next_vod_id d\<rparr>],
       sc_vod_seq := next_vod_id d\<rparr>"

text \<open>\<open>INSERT OR REPLACE INTO sc_search (vod_id, search_text)\<close>; \<open>vod_id\<close> is the key.\<close>

definition insert_or_replace_search :: "int \<Rightarrow> string \<Rightarrow> db \<Rightarrow> db" where
  "insert_or_replace_search vid txt d =
     d\<lparr>sc_search := filter (\<lambda>(i, t). i \<noteq> vid) (sc_search d) @ [(vid, txt)]\<rparr>"

text \<open>\<open>SELECT vod_id FROM sc_vod WHERE res_unique_id = ?\<close>, \<open>fetchone()\<close>.\<close>

definition vod_id_of_unique :: "db \<Rightarrow> string \<Rightarrow> int option" where
  "vod_id_of_unique d uid =
     (case filter (\<lambda>r. res_unique_id r = uid) (sc_vod d) of [] \<Rightarrow> None | r # rs \<Rightarrow> Some (vod_id r))"

text \<open>\<open>vod.get('vod_blurb', vod.get('vod_content', ''))\<close>.\<close>

definition blurb_of :: "raw_vod \<Rightarrow> string option" where
  "blurb_of vod = (case rv_blurb vod of TAbsent \<Rightarrow> get_text (rv_content vod) [] | b \<Rightarrow> get_text b [])"

definition normalize_play_from :: "string option \<Rightarrow> string option" where
  "normalize_play_from pf =
     (if truthy pf then Some (replace ''mtm3u8'' ''mt'' (replace ''wjm3u8'' ''wj'' (the pf))) else pf)"

text \<open>
  The body of the loop over \<open>vod_list\<close>, carrying the database, \<open>insert_count\<close> and
  \<open>skip_count\<close>. An exception inside the body (\<open>strip\<close> of a \<open>null\<close> name, \<open>int\<close> of a value
  that is no number) is caught there and the entry is left out. \<open>now\<close> is \<open>int(time.time())\<close>.
\<close>

definition build_row :: "config_row \<Rightarrow> int \<Rightarrow> raw_vod \<Rightarrow> string \<Rightarrow> string \<Rightarrow> int \<Rightarrow> int \<Rightarrow> int \<Rightarrow> vod_row" where
  "build_row source now vod uid vname type_id time_hits hits =
     \<lparr>vod_id = 0, res_unique_id = uid, res_source_id = cfg_source_id source, vod_name = vname,
      vod_en = get_text (rv_en vod) [], vod_type_id = type_id,
      vod_pic = get_text (rv_pic vod) [],
      vod_remarks = get_text (rv_remarks vod) [],
      vod_blurb = blurb_of vod,
      vod_play_url = get_text (rv_play_url vod) [],
      vod_play_from = normalize_play_from (get_text (rv_play_from vod) []),
      vod_actor = get_text (rv_actor vod) [],
      vod_director = get_text (rv_director vod) [],
      vod_year = get_text (rv_year vod) [],
      vod_area = get_text (rv_area vod) [],
      vod_lang = get_text (rv_lang vod) [],
      vod_class = get_text (rv_class vod) [],
      vod_time = (case rv_time vod of None \<Rightarrow> now | Some t \<Rightarrow> t),
      vod_time_hits = time_hits, vod_hits = hits, hot_rank = 0\<rparr>"

text \<open>
  The two statements that store a row and its search entry. When one of the integer
  parameters of the first statement does not fit an INTEGER, the statement raises and
  the entry is left out.
\<close>

definition binds :: "vod_row \<Rightarrow> bool" where
  "binds row =
     (fits_int64 (res_source_id row) \<and> fits_int64 (vod_type_id row) \<and> fits_int64 (vod_time row)
      \<and> fits_int64 (vod_time_hits row) \<and> fits_int64 (vod_hits row))"

definition store_row :: "vod_row \<Rightarrow> db \<times> nat \<times> nat \<Rightarrow> db \<times> nat \<times> nat" where
  "store_row row acc =
     (case acc of (d, insert_count, skip_count) \<Rightarrow>
        (if binds row
         then (let d1 = insert_or_replace_vod row d in
               case vod_id_of_unique d1 (res_unique_id row) of
                 None \<Rightarrow> (d1, insert_count, skip_count)
               | Some vid \<Rightarrow>
                   (insert_or_replace_search vid
                      (strip (vod_name row @ '' '' @ py_str (vod_actor row))) d1,
                    insert_count + 1, skip_count))
         else acc))"

text \<open>\<open>str(vod.get('vod_id', ''))\<close> and \<open>str(vod.get('type_id', '0'))\<close>.\<close>

definition remote_vod_id_of :: "raw_vod \<Rightarrow> string" where
  "remote_vod_id_of vod = py_str (get_text (rv_id vod) [])"

definition remote_type_id_of :: "raw_vod \<Rightarrow> string" where
  "remote_type_id_of vod = py_str (get_text (rv_type_id vod) ''0'')"

definition ingest_one :: "config_row \<Rightarrow> int \<Rightarrow> raw_vod \<Rightarrow> db \<times> nat \<times> nat \<Rightarrow> db \<times> nat \<times> nat" where
  "ingest_one source now vod acc =
     (case acc of (d, insert_count, skip_count) \<Rightarrow>
       (let remote_vod_id = remote_vod_id_of vod;
            remote_type_id = remote_type_id_of vod
        in case get_text (rv_name vod) [] of
             None \<Rightarrow> acc
           | Some name \<Rightarrow>
              (if remote_vod_id = [] \<or> strip name = [] then acc
               else (case map_of (res_mapping source) remote_type_id of
                       None \<Rightarrow> (d, insert_count, skip_count + 1)
                     | Some type_id \<Rightarrow>
                        (case get_int (rv_time_hits vod) 0 of
                           None \<Rightarrow> acc
                         | Some time_hits \<Rightarrow>
                            (case get_int (rv_hits vod) 0 of
                               None \<Rightarrow> acc
                             | Some hits \<Rightarrow>
                                 store_row
                                   (build_row source now vod
                                      (res_id_prefix source @ remote_vod_id) (strip name)
                                      type_id time_hits hits)
                                   acc))))))"

text \<open>
  The two tests of the body on an entry: \<open>named\<close>, the entry has an id and, after \<open>strip\<close>,
  a title (the negation of \<open>not remote_vod_id or not vod_name\<close>, a \<open>null\<close> title raising
  before it); \<open>unmapped\<close>, the mapping has no entry for its category
  (\<open>mapping.get(remote_type_id)\<close> is \<open>None\<close>).
\<close>

definition named :: "raw_vod \<Rightarrow> bool" where
  "named vod =
     (case get_text (rv_name vod) [] of
        None \<Rightarrow> False
      | Some name \<Rightarrow> remote_vod_id_of vod \<noteq> [] \<and> strip name \<noteq> [])"

definition unmapped :: "config_row \<Rightarrow> raw_vod \<Rightarrow> bool" where
  "unmapped source vod = (map_of (res_mapping source) (remote_type_id_of vod) = None)"

text \<open>
  The function returns \<open>insert_count\<close>; \<open>skip_count\<close> is what it reports on the console.
  A source without a category mapping is not ingested at all.
\<close>

definition parse_and_insert_vod_data :: "db \<Rightarrow> config_row \<Rightarrow> int \<Rightarrow> raw_vod list \<Rightarrow> db \<times> nat \<times> nat" where
  "parse_and_insert_vod_data d source now vod_list =
     (if res_mapping source = [] then (d, 0, 0)
      else fold (ingest_one source now) vod_list (d, 0, 0))"

section \<open>The network\<close>

text \<open>
  A request names the endpoint and its parameters: the list page \<open>ac=list&pg=page\<close>
  (with \<open>&h=hours\<close> in incremental mode) or the detail call \<open>ac=detail&ids=...\<close>. The
  upstream side is the list of the outcomes of the requests still to come, in order;
  when it is used up, a request fails. The trace keeps every request and every
  \<open>time.sleep\<close> (in seconds) in the order they happen.
\<close>

datatype request = ListRequest string int "int option" | DetailRequest string "string list"

datatype outcome = TransportFailure | DecodeFailure | Response payload

datatype event = Requested request | Slept rat

record net =
  pending :: "outcome list"
  trace :: "event list"

definition http_get :: "request \<Rightarrow> net \<Rightarrow> outcome \<times> net" where
  "http_get req n =
     (case pending n of
        [] \<Rightarrow> (TransportFailure, n\<lparr>trace := trace n @ [Requested req]\<rparr>)
      | x # xs \<Rightarrow> (x, n\<lparr>pending := xs, trace := trace n @ [Requested req]\<rparr>))"

definition sleep :: "rat \<Rightarrow> net \<Rightarrow> net" where
  "sleep seconds n = n\<lparr>trace := trace n @ [Slept seconds]\<rparr>"

section \<open>Fetching (collector.py)\<close>

text \<open>
  \<open>fetch_data_from_source\<close>: one request for one list page. A transport failure and a
  body that is not JSON both return \<open>None\<close>.
\<close>

definition fetch_data_from_source :: "config_row \<Rightarrow> int \<Rightarrow> int option \<Rightarrow> net \<Rightarrow> payload option \<times> net" where
  "fetch_data_from_source source page hours n =
     (case http_get (ListRequest (res_url source) page hours) n of
        (TransportFailure, n1) \<Rightarrow> (None, n1)
      | (DecodeFailure, n1) \<Rightarrow> (None, n1)
      | (Response data, n1) \<Rightarrow> (Some data, n1))"

text \<open>
  \<open>fetch_detail_data_from_source\<close>: the loop \<open>for attempt in range(max_retries)\<close> over the
  attempts still to make. A source whose format is not \<open>json\<close> returns \<open>None\<close> after the
  first answer. After a failed attempt that is not the last, the loop sleeps
  \<open>base_delay * 2 ** attempt\<close> seconds.
\<close>

definition max_retries :: nat where
  "max_retries = 3"

definition base_delay :: rat where
  "base_delay = 2"

fun fetch_detail_attempts :: "config_row \<Rightarrow> string list \<Rightarrow> nat list \<Rightarrow> net \<Rightarrow> payload option \<times> net" where
  "fetch_detail_attempts source vod_ids [] n = (None, n)"
| "fetch_detail_attempts source vod_ids (attempt # rest) n =
     (case http_get (DetailRequest (res_url source) vod_ids) n of
        (Response data, n1) \<Rightarrow>
          (if data_format source = ''json'' then (Some data, n1) else (None, n1))
      | (failure, n1) \<Rightarrow>
          (if failure = DecodeFailure \<and> data_format source \<noteq> ''json'' then (None, n1)
           else fetch_detail_attempts source vod_ids rest
                  (if attempt < max_retries - 1 then sleep (base_delay * 2 ^ attempt) n1 else n1)))"

definition fetch_detail_data_from_source :: "config_row \<Rightarrow> string list \<Rightarrow> net \<Rightarrow> payload option \<times> net" where
  "fetch_detail_data_from_source source vod_ids n =
     (if vod_ids = [] then (None, n) else fetch_detail_attempts source vod_ids [0..<max_retries] n)"

section \<open>Pagination (collector.py, collect\_from\_source)\<close>

text \<open>
  What the operator answers when the collector asks, after the answer has been read:
  all pages, a range \<open>start-end\<close>, a number of pages, an answer that is no number, or
  cancel.
\<close>

datatype operator_choice =
  ChooseAll | ChooseRange int int | ChooseCount int | ChooseInvalid | ChooseCancel

text \<open>\<open>(start_page, max_pages)\<close>, or \<open>None\<close> when the operator cancels.\<close>

definition page_range :: "int option \<Rightarrow> bool \<Rightarrow> operator_choice \<Rightarrow> int \<Rightarrow> (int \<times> int) option" where
  "page_range hours auto_confirm choice total_pages =
     (case hours of
        Some h \<Rightarrow> Some (1, total_pages)
      | None \<Rightarrow>
          (if auto_confirm then Some (1, total_pages)
           else (case choice of
              ChooseCancel \<Rightarrow> None
            | ChooseAll \<Rightarrow> Some (1, total_pages)
            | ChooseInvalid \<Rightarrow> Some (1, total_pages)
            | ChooseCount num_pages \<Rightarrow>
                (if 1 \<le> num_pages \<and> num_pages \<le> total_pages then Some (1, num_pages)
                 else Some (1, total_pages))
            | ChooseRange s e \<Rightarrow>
                (let start_page = (if s < 1 then 1 else s);
                     end_page = (if e > total_pages then total_pages else e)
                 in if start_page > end_page then Some (end_page, start_page)
                    else Some (start_page, end_page)))))"

text \<open>
  \<open>int(data.get('page', page))\<close> and \<open>int(data.get('pagecount', 1))\<close>, with the fallback of
  the \<open>except\<close> branch.
\<close>

definition page_info :: "payload \<Rightarrow> int \<Rightarrow> int \<times> int" where
  "page_info data page =
     (case get_int (p_page data) page of
        None \<Rightarrow> (page, 1)
      | Some current_page \<Rightarrow>
          (case get_int (p_pagecount data) 1 of
             None \<Rightarrow> (page, 1)
           | Some total_pages_api \<Rightarrow> (current_page, total_pages_api)))"

text \<open>
  The loop \<open>while True\<close>, one turn per unit of fuel; \<open>None\<close> when the fuel is used up before
  the loop ends. The state is the database, the network and \<open>total_count\<close>.
\<close>

fun collect_loop ::
  "nat \<Rightarrow> config_row \<Rightarrow> int option \<Rightarrow> int \<Rightarrow> int \<Rightarrow> int \<Rightarrow> payload \<Rightarrow> int
   \<Rightarrow> db \<times> net \<times> nat \<Rightarrow> (db \<times> net \<times> nat) option" where
  "collect_loop 0 source hours now start_page max_pages first_page_data page st = None"
| "collect_loop (Suc fuel) source hours now start_page max_pages first_page_data page (d, n, total_count) =
     (let (fetched, n1) =
            (if page = 1 \<and> start_page = 1 then (Some first_page_data, n)
             else case fetch_data_from_source source page hours n of
                    (None, n') \<Rightarrow> (None, n')
                  | (Some data, n') \<Rightarrow> (if p_code data \<noteq> JInt 1 then (None, n') else (Some data, n')))
      in case fetched of
           None \<Rightarrow>
             collect_loop fuel source hours now start_page max_pages first_page_data (page + 1)
               (d, n1, total_count)
         | Some data \<Rightarrow>
             (if p_list data = [] then Some (d, n1, total_count)
              else (case parse_and_insert_vod_data d source now (p_list data) of
                      (d1, count, skipped) \<Rightarrow>
                        (if page \<ge> max_pages then Some (d1, n1, total_count + count)
                         else if fst (page_info data page) \<ge> snd (page_info data page)
                         then Some (d1, n1, total_count + count)
                         else collect_loop fuel source hours now start_page max_pages
                                first_page_data (page + 1)
                                (d1, sleep (1 / 2) n1, total_count + count)))))"

text \<open>
  \<open>collect_from_source\<close>. The first page is fetched for its \<open>pagecount\<close>. The report of the
  statistics formats \<open>pagecount\<close> and \<open>total\<close> with a thousands separator, and in a full
  run the estimate of the duration multiplies \<open>pagecount\<close> by \<open>0.5\<close>, which turns it into a
  double; an exception of one of them leaves the function before anything is ingested.
  The result is the database, the network and the count or the exception.
\<close>

definition float_overflow :: "int \<Rightarrow> bool" where
  "float_overflow n = (2 ^ 1024 - 2 ^ 970 \<le> \<bar>n\<bar>)"

definition report_error :: "payload \<Rightarrow> int option \<Rightarrow> error option" where
  "report_error first_page_data hours =
     (case format_error (p_pagecount first_page_data) of
        Some e \<Rightarrow> Some e
      | None \<Rightarrow>
         (case format_error (p_total first_page_data) of
            Some e \<Rightarrow> Some e
          | None \<Rightarrow>
             (case (hours, p_pagecount first_page_data) of
                (None, JInt v) \<Rightarrow> (if float_overflow v then Some OverflowError else None)
              | _ \<Rightarrow> None)))"

definition collect_from_source ::
  "nat \<Rightarrow> db \<Rightarrow> config_row \<Rightarrow> int option \<Rightarrow> bool \<Rightarrow> operator_choice \<Rightarrow> int \<Rightarrow> net
   \<Rightarrow> (db \<times> net \<times> (error + nat)) option" where
  "collect_from_source fuel d source hours auto_confirm choice now n =
     (case fetch_data_from_source source 1 hours n of
        (None, n1) \<Rightarrow> Some (d, n1, Inr 0)
      | (Some first_page_data, n1) \<Rightarrow>
          (if p_code first_page_data \<noteq> JInt 1 then Some (d, n1, Inr 0)
           else (case report_error first_page_data hours of
                   Some e \<Rightarrow> Some (d, n1, Inl e)
                 | None \<Rightarrow>
                    (let total_pages = (case p_pagecount first_page_data of JInt v \<Rightarrow> v | _ \<Rightarrow> 1) in
                     case page_range hours auto_confirm choice total_pages of
                       None \<Rightarrow> Some (d, n1, Inr 0)
                     | Some (start_page, max_pages) \<Rightarrow>
                         (case collect_loop fuel source hours now start_page max_pages
                                 first_page_data start_page (d, n1, 0) of
                            None \<Rightarrow> None
                          | Some (d1, n2, total_count) \<Rightarrow> Some (d1, n2, Inr total_count))))))"

section \<open>Detail enrichment (collector.py)\<close>

text \<open>
  \<open>update_vod_with_detail\<close>, the body of its loop: the UPDATE of the row with the unique
  id, and, when a row was matched, the UPDATE of its search entry. The UPDATE raises when
  \<open>vod_time_hits\<close> does not fit an INTEGER.
\<close>

definition detail_update :: "raw_vod \<Rightarrow> int \<Rightarrow> vod_row \<Rightarrow> vod_row" where
  "detail_update vod time_hits r =
     r\<lparr>vod_en := get_text (rv_en vod) [],
       vod_pic := get_text (rv_pic vod) [],
       vod_play_url := get_text (rv_play_url vod) [],
       vod_actor := get_text (rv_actor vod) [],
       vod_director := get_text (rv_director vod) [],
       vod_blurb := blurb_of vod,
       vod_year := get_text (rv_year vod) [],
       vod_area := get_text (rv_area vod) [],
       vod_lang := get_text (rv_lang vod) [],
       vod_class := get_text (rv_class vod) [],
       vod_time_hits := time_hits\<rparr>"

definition apply_detail :: "config_row \<Rightarrow> raw_vod \<Rightarrow> db \<times> nat \<Rightarrow> db \<times> nat" where
  "apply_detail source vod acc =
     (case acc of (d, update_count) \<Rightarrow>
       (let remote_vod_id = remote_vod_id_of vod;
            uid = res_id_prefix source @ remote_vod_id
        in if remote_vod_id = [] then acc
           else (case get_int (rv_time_hits vod) 0 of
                   None \<Rightarrow> acc
                 | Some time_hits \<Rightarrow>
                    (case (if fits_int64 time_hits then vod_id_of_unique d uid else None) of
                       None \<Rightarrow> acc
                     | Some vid \<Rightarrow>
                        (d\<lparr>sc_vod := map (\<lambda>r. if res_unique_id r = uid
                                               then detail_update vod time_hits r else r) (sc_vod d),
                           sc_search :=
                             map (\<lambda>(i, t). if i = vid
                                    then (i, strip (py_str (get_text (rv_name vod) []) @ '' ''
                                                    @ py_str (get_text (rv_actor vod) [])))
                                    else (i, t)) (sc_search d)\<rparr>,
                         update_count + 1)))))"

definition update_vod_with_detail :: "db \<Rightarrow> config_row \<Rightarrow> raw_vod list \<Rightarrow> db \<times> nat" where
  "update_vod_with_detail d source detail_list = fold (apply_detail source) detail_list (d, 0)"

text \<open>
  \<open>collect_details_for_source\<close>: the remote ids of the rows of the source without play
  data, in batches of twenty, one detail request per batch.
\<close>

definition batch_size :: nat where
  "batch_size = 20"

definition batches :: "string list \<Rightarrow> string list list" where
  "batches remote_ids =
     map (\<lambda>k. take batch_size (drop (k * batch_size) remote_ids))
       [0..<(length remote_ids + batch_size - 1) div batch_size]"

definition detail_batch :: "config_row \<Rightarrow> string list \<Rightarrow> db \<times> net \<times> nat \<Rightarrow> db \<times> net \<times> nat" where
  "detail_batch source batch acc =
     (case acc of (d, n, update_count) \<Rightarrow>
       (case fetch_detail_data_from_source source batch n of
          (None, n1) \<Rightarrow> (d, n1, update_count)
        | (Some detail_data, n1) \<Rightarrow>
            (if p_code detail_data = JInt 1
             then (case update_vod_with_detail d source (p_list detail_data) of
                     (d1, count) \<Rightarrow> (d1, n1, update_count + count))
             else (d, n1, update_count))))"

definition collect_details_for_source :: "db \<Rightarrow> config_row \<Rightarrow> net \<Rightarrow> db \<times> net \<times> nat" where
  "collect_details_for_source d source n =
     (let all_unique_ids =
            map res_unique_id
              (filter (\<lambda>r. res_source_id r = cfg_source_id source \<and> \<not> truthy (vod_play_url r))
                 (sc_vod d));
          remote_ids = map (drop (length (res_id_prefix source))) all_unique_ids
      in fold (detail_batch source) (batches remote_ids) (d, n, 0))"

section \<open>The snapshot files (collector.py, db\_config.py)\<close>

text \<open>
  A database file holds a catalog, or it is a file without the tables (an empty file
  that \<open>sqlite3.connect\<close> created). The directory is the list of its files with their
  modification times; \<open>glob\<close> lists it in this order.
\<close>

datatype content = Sqlite db | NoTables

record db_file =
  contents :: content
  mtime :: int

type_synonym fs = "(string \<times> db_file) list"

definition MAIN_DB :: string where
  "MAIN_DB = ''sc_main.db''"

definition TEMP_DB :: string where
  "TEMP_DB = ''sc_temp.db''"

definition exists_file :: "fs \<Rightarrow> string \<Rightarrow> bool" where
  "exists_file fs path = (map_of fs path \<noteq> None)"

definition remove_file :: "string \<Rightarrow> fs \<Rightarrow> fs" where
  "remove_file path fs = filter (\<lambda>(p, f). p \<noteq> path) fs"

definition write_file :: "string \<Rightarrow> db_file \<Rightarrow> fs \<Rightarrow> fs" where
  "write_file path f fs =
     (if exists_file fs path then map (\<lambda>(p, g). if p = path then (p, f) else (p, g)) fs
      else fs @ [(path, f)])"

text \<open>\<open>shutil.copy2\<close> copies the data and the modification time; \<open>shutil.move\<close> renames.\<close>

definition copy2 :: "string \<Rightarrow> string \<Rightarrow> fs \<Rightarrow> fs" where
  "copy2 src dst fs = (case map_of fs src of None \<Rightarrow> fs | Some f \<Rightarrow> write_file dst f fs)"

definition move :: "string \<Rightarrow> string \<Rightarrow> fs \<Rightarrow> fs" where
  "move src dst fs =
     (case map_of fs src of None \<Rightarrow> fs | Some f \<Rightarrow> remove_file src (write_file dst f fs))"

text \<open>\<open>glob\<close> of \<open>f"{db_name}.*.bak"\<close>.\<close>

definition is_backup :: "string \<Rightarrow> string \<Rightarrow> bool" where
  "is_backup db_name path =
     (length db_name + 5 \<le> length path
      \<and> take (length db_name + 1) path = db_name @ ''.''
      \<and> drop (length path - 4) path = ''.bak'')"

definition mtime_of :: "fs \<Rightarrow> string \<Rightarrow> int" where
  "mtime_of fs path = (case map_of fs path of None \<Rightarrow> 0 | Some f \<Rightarrow> mtime f)"

text \<open>
  \<open>cleanup_old_backups\<close>: the backups, newest modification time first (the sort is
  stable), and all but the first \<open>keep_count\<close> of them removed.
\<close>

definition cleanup_old_backups :: "string \<Rightarrow> nat \<Rightarrow> fs \<Rightarrow> fs" where
  "cleanup_old_backups db_name keep_count fs =
     (let backup_files = sort_key (\<lambda>p. - mtime_of fs p) (filter (is_backup db_name) (map fst fs))
      in if length backup_files > keep_count
         then fold remove_file (drop keep_count backup_files) fs
         else fs)"

text \<open>
  \<open>swap_database_files\<close>. \<open>stamp\<close> is \<open>time.strftime('%Y%m%d%H%M%S')\<close>. The copy and the
  move can fail (\<open>fault\<close>): the function catches the exception and returns \<open>False\<close>.
\<close>

datatype io_fault = NoFault | CopyFails | MoveFails

definition backup_name :: "string \<Rightarrow> string" where
  "backup_name stamp = MAIN_DB @ ''.'' @ stamp @ ''.bak''"

definition swap_database_files :: "string \<Rightarrow> io_fault \<Rightarrow> fs \<Rightarrow> bool \<times> fs" where
  "swap_database_files stamp fault fs =
     (if \<not> exists_file fs TEMP_DB then (False, fs)
      else if exists_file fs MAIN_DB \<and> fault = CopyFails then (False, fs)
      else (let fs1 = (if exists_file fs MAIN_DB then copy2 MAIN_DB (backup_name stamp) fs else fs)
            in if fault = MoveFails then (False, fs1)
               else (True, cleanup_old_backups MAIN_DB 1 (move TEMP_DB MAIN_DB fs1))))"

section \<open>The run (collector.py, run\_collection)\<close>

text \<open>
  The world of a run: the files of the directory, whether another instance holds the lock
  on \<open>collector.lock\<close> (then \<open>flock\<close> with \<open>LOCK_NB\<close> raises and \<open>acquire_lock\<close> returns
  \<open>None\<close>), and the network.
\<close>

record world =
  files :: fs
  lock_held :: bool
  network :: net

datatype run_mode = Full | Incremental | DetailsOnly

record args =
  arg_mode :: run_mode
  arg_hours :: "int option"
  arg_yes :: bool

text \<open>
  What the run takes from its surroundings: the time, the time stamp of the backup, the
  fuel of each pagination loop, the operator's answer for a source, and the fault of the
  file switch.
\<close>

record env =
  env_now :: int
  env_stamp :: string
  env_fuel :: nat
  env_ask :: "config_row \<Rightarrow> operator_choice"
  env_fault :: io_fault

text \<open>
  The counts of the summary, and \<open>swapped\<close>: \<open>None\<close> when the file switch was skipped,
  otherwise what \<open>swap_database_files\<close> returned.
\<close>

record summary =
  total_collected :: nat
  success_count :: nat
  detail_total :: nat
  migrated_hot_rank_count :: nat
  swapped :: "bool option"

datatype run_result =
  UsageError | LockBusy | NoSources | Crashed error | Diverged | Completed summary

text \<open>\<open>init_db\<close>: the tables of INIT\_SCHEMA, created where they do not exist.\<close>

definition empty_db :: db where
  "empty_db = \<lparr>sc_vod = [], sc_vod_seq = 0, hot_rank_column = False, sc_search = [],
               sc_config = [], sc_merge_log = []\<rparr>"

definition init_db :: "string \<Rightarrow> int \<Rightarrow> fs \<Rightarrow> fs" where
  "init_db db_name now fs =
     (case map_of fs db_name of
        None \<Rightarrow> write_file db_name \<lparr>contents = Sqlite empty_db, mtime = now\<rparr> fs
      | Some f \<Rightarrow>
          (case contents f of
             NoTables \<Rightarrow> write_file db_name \<lparr>contents = Sqlite empty_db, mtime = now\<rparr> fs
           | Sqlite d \<Rightarrow> fs))"

text \<open>\<open>get_db_connection\<close>: \<open>sqlite3.connect\<close> creates an empty file where there is none.\<close>

definition get_db_connection :: "string \<Rightarrow> int \<Rightarrow> fs \<Rightarrow> fs" where
  "get_db_connection db_name now fs =
     (if exists_file fs db_name then fs
      else write_file db_name \<lparr>contents = NoTables, mtime = now\<rparr> fs)"

text \<open>
  The working snapshot before the collection: copied from the published one (or
  initialised) when it is absent, and once more when it has no table \<open>sc_vod\<close>.
\<close>

definition rebuild_temp :: "int \<Rightarrow> fs \<Rightarrow> fs" where
  "rebuild_temp now fs =
     (if exists_file fs MAIN_DB then copy2 MAIN_DB TEMP_DB fs else init_db TEMP_DB now fs)"

definition prepare_temp :: "int \<Rightarrow> fs \<Rightarrow> fs" where
  "prepare_temp now fs =
     (let fs1 = (if \<not> exists_file fs TEMP_DB then rebuild_temp now fs else fs) in
      case map_of fs1 TEMP_DB of
        None \<Rightarrow> fs1
      | Some f \<Rightarrow> (case contents f of NoTables \<Rightarrow> rebuild_temp now fs1 | Sqlite d \<Rightarrow> fs1))"

definition working_db :: "fs \<Rightarrow> db option" where
  "working_db fs =
     (case map_of fs TEMP_DB of
        None \<Rightarrow> None
      | Some f \<Rightarrow> (case contents f of NoTables \<Rightarrow> None | Sqlite d \<Rightarrow> Some d))"

text \<open>What the connection to the working snapshot has committed, written to its file.\<close>

definition store_temp :: "int \<Rightarrow> db \<Rightarrow> fs \<Rightarrow> fs" where
  "store_temp now d fs =
     (if working_db fs = Some d then fs
      else write_file TEMP_DB \<lparr>contents = Sqlite d, mtime = now\<rparr> fs)"

text \<open>
  The list phase: one source after the other; an exception of a source is reported and
  the next source follows.
\<close>

fun list_phase ::
  "env \<Rightarrow> args \<Rightarrow> config_row list \<Rightarrow> db \<times> net \<times> nat \<times> nat \<Rightarrow> (db \<times> net \<times> nat \<times> nat) option" where
  "list_phase e a [] st = Some st"
| "list_phase e a (source # rest) (d, n, collected, success) =
     (case collect_from_source (env_fuel e) d source (arg_hours a) (arg_yes a)
             (env_ask e source) (env_now e) n of
        None \<Rightarrow> None
      | Some (d1, n1, Inl err) \<Rightarrow> list_phase e a rest (d1, n1, collected, success)
      | Some (d1, n1, Inr count) \<Rightarrow> list_phase e a rest (d1, n1, collected + count, success + 1))"

text \<open>In the mode \<open>details-only\<close> the rows of each source are counted instead.\<close>

definition count_existing :: "config_row list \<Rightarrow> db \<Rightarrow> nat" where
  "count_existing srcs d =
     sum_list (map (\<lambda>source. length (filter (\<lambda>r. res_source_id r = cfg_source_id source) (sc_vod d)))
                 srcs)"

definition detail_source :: "config_row \<Rightarrow> db \<times> net \<times> nat \<Rightarrow> db \<times> net \<times> nat" where
  "detail_source source acc =
     (case acc of (d, n, detailed) \<Rightarrow>
        (case collect_details_for_source d source n of
           (d1, n1, count) \<Rightarrow> (d1, n1, detailed + count)))"

text \<open>
  The three phases on the working snapshot. The result is the database, the network and
  \<open>total_collected\<close>, \<open>success_count\<close>, \<open>detail_total\<close>, \<open>migrated_hot_rank_count\<close>.
\<close>

definition run_phases ::
  "env \<Rightarrow> args \<Rightarrow> config_row list \<Rightarrow> db \<Rightarrow> net \<Rightarrow> (db \<times> net \<times> nat \<times> nat \<times> nat \<times> nat) option" where
  "run_phases e a srcs d n =
     (case (if arg_mode a \<noteq> DetailsOnly then list_phase e a srcs (d, n, 0, 0)
            else Some (d, n, count_existing srcs d, length srcs)) of
        None \<Rightarrow> None
      | Some (d1, n1, collected, success) \<Rightarrow>
          (case (if collected > 0 then fold detail_source srcs (d1, n1, 0) else (d1, n1, 0)) of
             (d2, n2, detailed) \<Rightarrow>
               (case sync_hot_rank_to_new_records d2 of
                  (d3, migrated) \<Rightarrow> Some (d3, n2, collected, success, detailed, migrated))))"

text \<open>\<open>auto_merge(TEMP_DB)\<close> on the file; an exception is reported and the run goes on.\<close>

definition merge_file :: "int \<Rightarrow> fs \<Rightarrow> fs" where
  "merge_file now fs =
     (case working_db fs of
        None \<Rightarrow> fs
      | Some d \<Rightarrow> store_temp now (fst (auto_merge d now)) fs)"

text \<open>
  The end of the run: the merge when something was collected or enriched, the file switch
  when one of the three counts is positive.
\<close>

definition publish_phase :: "env \<Rightarrow> nat \<Rightarrow> nat \<Rightarrow> nat \<Rightarrow> fs \<Rightarrow> bool option \<times> fs" where
  "publish_phase e collected detailed migrated fs =
     (let fs1 = (if collected > 0 \<or> detailed > 0 then merge_file (env_now e) fs else fs) in
      if collected > 0 \<or> detailed > 0 \<or> migrated > 0
      then (case swap_database_files (env_stamp e) (env_fault e) fs1 of
              (ok, fs2) \<Rightarrow> (Some ok, fs2))
      else (None, fs1))"

text \<open>The run once the lock is held.\<close>

definition run_locked :: "env \<Rightarrow> args \<Rightarrow> world \<Rightarrow> run_result \<times> world" where
  "run_locked e a w =
     (let fs2 = get_db_connection MAIN_DB (env_now e) (prepare_temp (env_now e) (files w)) in
      case map_of fs2 MAIN_DB of
        None \<Rightarrow> (Crashed OperationalError, w\<lparr>files := fs2\<rparr>)
      | Some mf \<Rightarrow>
         (case contents mf of
            NoTables \<Rightarrow> (Crashed OperationalError, w\<lparr>files := fs2\<rparr>)
          | Sqlite dm \<Rightarrow>
             (if sc_config dm = [] then (NoSources, w\<lparr>files := fs2\<rparr>)
              else (case working_db fs2 of
                      None \<Rightarrow> (Crashed OperationalError, w\<lparr>files := fs2\<rparr>)
                    | Some d \<Rightarrow>
                       (case run_phases e a (sc_config dm) d (network w) of
                          None \<Rightarrow> (Diverged, w\<lparr>files := fs2\<rparr>)
                        | Some (d3, n3, collected, success, detailed, migrated) \<Rightarrow>
                           (case publish_phase e collected detailed migrated
                                   (store_temp (env_now e) d3 fs2) of
                              (sw, fs4) \<Rightarrow>
                                (Completed \<lparr>total_collected = collected, success_count = success,
                                             detail_total = detailed,
                                             migrated_hot_rank_count = migrated, swapped = sw\<rparr>,
                                 w\<lparr>files := fs4, network := n3\<rparr>)))))))"

text \<open>
  \<open>run_collection\<close>: the arguments are checked, then the lock is taken; when another
  instance holds it, the function returns at once.
\<close>

definition run_collection :: "env \<Rightarrow> args \<Rightarrow> world \<Rightarrow> run_result \<times> world" where
  "run_collection e a w =
     (if arg_mode a = Incremental \<and> arg_hours a = None then (UsageError, w)
      else if lock_held w then (LockBusy, w)
      else run_locked e a w)"

section \<open>Example inputs\<close>

text \<open>A row with every column empty, a source \<open>wj_\<close> and the surroundings of a run.\<close>

definition blank_row :: vod_row where
  "blank_row = \<lparr>vod_id = 0, res_unique_id = [], res_source_id = 0, vod_name = [], vod_en = None,
     vod_type_id = 0, vod_pic = None, vod_remarks = None, vod_blurb = None, vod_play_url = None,
     vod_play_from = None, vod_actor = None, vod_director = None, vod_year = None,
     vod_area = None, vod_lang = None, vod_class = None, vod_time = 0, vod_time_hits = 0,
     vod_hits = 0, hot_rank = 0\<rparr>"

definition source_wj :: config_row where
  "source_wj = \<lparr>cfg_source_id = 1, res_name = ''wj'', res_url = ''http://wj.example/api'',
     data_format = ''json'', res_id_prefix = ''wj_'', res_mapping = [(''10'', 6)],
     operation_mode = ''add_update''\<rparr>"

definition env0 :: env where
  "env0 = \<lparr>env_now = 1700000000, env_stamp = ''20231114221320'', env_fuel = 10,
            env_ask = (\<lambda>source. ChooseAll), env_fault = NoFault\<rparr>"

definition args_full :: args where
  "args_full = \<lparr>arg_mode = Full, arg_hours = None, arg_yes = True\<rparr>"

definition main_db0 :: db where
  "main_db0 = empty_db\<lparr>sc_config := [source_wj]\<rparr>"

text \<open>A world in which another instance is running: the published snapshot, no working one.\<close>

definition world_busy :: world where
  "world_busy = \<lparr>files = [(MAIN_DB, \<lparr>contents = Sqlite main_db0, mtime = 1699990000\<rparr>)],
                  lock_held = True,
                  network = \<lparr>pending = [], trace = []\<rparr>\<rparr>"

text \<open>
  Two rows with the same title and year, from two sources. \<open>dup_a\<close> has play data and a
  poster and the time stamp 0; \<open>dup_b\<close> has a poster only and a time stamp of November
  2023.
\<close>

definition source_mt :: config_row where
  "source_mt = \<lparr>cfg_source_id = 2, res_name = ''mt'', res_url = ''http://mt.example/api'',
     data_format = ''json'', res_id_prefix = ''mt_'', res_mapping = [(''3'', 6)],
     operation_mode = ''add_update''\<rparr>"

definition dup_a :: vod_row where
  "dup_a = blank_row\<lparr>vod_id := 1, res_unique_id := ''wj_1'', res_source_id := 1,
             vod_name := ''Foo'', vod_year := Some ''2024'',
             vod_play_url := Some ''ep1$http://a/1.m3u8'', vod_pic := Some ''a.jpg''\<rparr>"

definition dup_b :: vod_row where
  "dup_b = blank_row\<lparr>vod_id := 2, res_unique_id := ''mt_7'', res_source_id := 2,
             vod_name := ''Foo'', vod_year := Some ''2024'',
             vod_pic := Some ''b.jpg'', vod_time := 1700000000\<rparr>"

definition db_far :: db where
  "db_far = empty_db\<lparr>sc_vod := [dup_a, dup_b], sc_vod_seq := 2,
               sc_search := [(1, ''Foo''), (2, ''Foo'')], sc_config := [source_wj, source_mt]\<rparr>"

text \<open>
  Two rows of the same title and year that have no play data, no synopsis and no poster,
  with time stamps before 1970 (an upstream \<open>vod_time\<close> of \<open>-2000000\<close> and \<open>-3000000\<close>).
\<close>

definition old_a :: vod_row where
  "old_a = blank_row\<lparr>vod_id := 1, res_unique_id := ''wj_1'', res_source_id := 1,
             vod_name := ''Foo'', vod_year := Some ''1969'', vod_time := - 2000000\<rparr>"

definition old_b :: vod_row where
  "old_b = blank_row\<lparr>vod_id := 2, res_unique_id := ''wj_2'', res_source_id := 1,
             vod_name := ''Foo'', vod_year := Some ''1969'', vod_time := - 3000000\<rparr>"

definition db_old :: db where
  "db_old = empty_db\<lparr>sc_vod := [old_a, old_b], sc_vod_seq := 2,
               sc_search := [(1, ''Foo''), (2, ''Foo'')], sc_config := [source_wj]\<rparr>"

text \<open>Entries of a list payload: \<open>Foo\<close> and \<open>Baz\<close> of the mapped category 10, \<open>Bar\<close> of the
  category 99, which \<open>source_wj\<close> does not map.\<close>

definition blank_raw :: raw_vod where
  "blank_raw = \<lparr>rv_id = TAbsent, rv_name = TAbsent, rv_type_id = TAbsent, rv_en = TAbsent,
     rv_pic = TAbsent, rv_remarks = TAbsent, rv_blurb = TAbsent, rv_content = TAbsent,
     rv_actor = TAbsent, rv_director = TAbsent, rv_play_url = TAbsent, rv_play_from = TAbsent,
     rv_year = TAbsent, rv_area = TAbsent, rv_lang = TAbsent, rv_class = TAbsent,
     rv_time = None, rv_time_hits = JAbsent, rv_hits = JAbsent\<rparr>"

definition raw_foo :: raw_vod where
  "raw_foo = blank_raw\<lparr>rv_id := TStr ''1'', rv_name := TStr ''Foo'', rv_type_id := TStr ''10'',
       rv_year := TStr ''2024'', rv_time := Some 1700000000\<rparr>"

definition raw_bar :: raw_vod where
  "raw_bar = blank_raw\<lparr>rv_id := TStr ''2'', rv_name := TStr ''Bar'', rv_type_id := TStr ''99'',
       rv_year := TStr ''2023'', rv_time := Some 1700000000\<rparr>"

definition raw_baz :: raw_vod where
  "raw_baz = blank_raw\<lparr>rv_id := TStr ''3'', rv_name := TStr ''Baz'', rv_type_id := TStr ''10'',
       rv_year := TStr ''2022'', rv_time := Some 1700000000\<rparr>"

text \<open>The same payload ingested once and twice into the store that holds only the source.\<close>

definition ingest_once :: db where
  "ingest_once = fst (parse_and_insert_vod_data main_db0 source_wj 1700000100 [raw_foo])"

definition ingest_twice :: db where
  "ingest_twice = fst (parse_and_insert_vod_data ingest_once source_wj 1700000100 [raw_foo])"

text \<open>
  Pages of the source: page 1 of 2 with \<open>Foo\<close>, and the answer to a request for page 3.
  \<open>net_retry\<close> is an upstream whose first two answers are transport failures and whose
  third is a page; \<open>net_skip\<close> answers page 1, fails on page 2 and answers the next request.
\<close>

definition page_one :: payload where
  "page_one = \<lparr>p_code = JInt 1, p_page = JInt 1, p_pagecount = JInt 2, p_total = JInt 2,
                p_list = [raw_foo]\<rparr>"

definition page_three :: payload where
  "page_three = \<lparr>p_code = JInt 1, p_page = JInt 3, p_pagecount = JInt 3, p_total = JInt 3,
                  p_list = [raw_baz]\<rparr>"

definition net_retry :: net where
  "net_retry = \<lparr>pending = [TransportFailure, TransportFailure, Response page_one], trace = []\<rparr>"

definition net_skip :: net where
  "net_skip = \<lparr>pending = [Response page_one, TransportFailure, Response page_three], trace = []\<rparr>"



text \<open>
  An entry with an id, a title of blanks and the unmapped category 99; the source \<open>wj_\<close>
  before any category is mapped, and with the category 99 mapped as well; the store after
  \<open>Bar\<close> was ingested while its category was mapped.
\<close>

definition raw_blank :: raw_vod where
  "raw_blank = blank_raw\<lparr>rv_id := TStr ''5'', rv_name := TStr ''  '', rv_type_id := TStr ''99''\<rparr>"

definition source_nomap :: config_row where
  "source_nomap = source_wj\<lparr>res_mapping := []\<rparr>"

definition source_wide :: config_row where
  "source_wide = source_wj\<lparr>res_mapping := [(''10'', 6), (''99'', 7)]\<rparr>"

definition db_bar :: db where
  "db_bar = fst (parse_and_insert_vod_data main_db0 source_wide 1690000000 [raw_bar])"

section \<open>The run lock\<close>

text \<open>
  Claim C9. When another instance holds the run lock, \<open>run_collection\<close> returns at once:
  the world after the call is the world before it, so no file (working or published
  snapshot) is created, changed or replaced and the network trace has no new request. The
  result is \<open>LockBusy\<close>, unless the arguments were refused before the lock was tried.
\<close>

theorem run_collection_lock_held:
  assumes "lock_held w"
  shows "snd (run_collection e a w) = w
         \<and> fst (run_collection e a w) =
             (if arg_mode a = Incremental \<and> arg_hours a = None then UsageError else LockBusy)"
  using assms by (simp add: run_collection_def)

theorem run_collection_lock_held_witness:
  "lock_held world_busy
   \<and> snd (run_collection env0 args_full world_busy) = world_busy
   \<and> fst (run_collection env0 args_full world_busy) = LockBusy"
proof -
  have held: "lock_held world_busy"
    by (simp add: world_busy_def)
  from run_collection_lock_held [OF held, of env0 args_full] held
  show ?thesis
    by (simp add: args_full_def)
qed

section \<open>Primary selection\<close>

text \<open>The loop keeps its start value when no row scores above it.\<close>

lemma select_loop_none:
  "\<forall>r\<in>set rows. score r \<le> s \<Longrightarrow> select_loop rows (b, s) = (b, s)"
  by (induction rows) auto

text \<open>
  Otherwise it ends on the first row of maximal score: every row before it scores
  strictly less, every row after it at most as much.
\<close>

lemma select_loop_some:
  "\<exists>r\<in>set rows. score r > s \<Longrightarrow>
   \<exists>pre r post. rows = pre @ r # post \<and> select_loop rows (b, s) = (Some (vod_id r), score r)
      \<and> (\<forall>x\<in>set pre. score x < score r) \<and> (\<forall>x\<in>set post. score x \<le> score r)
      \<and> score r > s"
proof (induction rows arbitrary: b s)
  case Nil
  then show ?case by simp
next
  case (Cons x xs)
  show ?case
  proof (cases "score x > s")
    case True
    show ?thesis
    proof (cases "\<exists>r\<in>set xs. score r > score x")
      case hi: True
      from Cons.IH[OF hi, of "Some (vod_id x)"]
      obtain pre r post where p: "xs = pre @ r # post"
        "select_loop xs (Some (vod_id x), score x) = (Some (vod_id r), score r)"
        "\<forall>y\<in>set pre. score y < score r" "\<forall>y\<in>set post. score y \<le> score r" "score r > score x"
        by blast
      have 1: "x # xs = (x # pre) @ r # post" using p by simp
      have 2: "\<forall>y\<in>set (x # pre). score y < score r" using p by auto
      have 3: "score r > s" using p True by simp
      have 4: "select_loop (x # xs) (b, s) = (Some (vod_id r), score r)" using p True by simp
      show ?thesis using 1 2 3 4 p(4) by blast
    next
      case lo: False
      then have le: "\<forall>y\<in>set xs. score y \<le> score x" by auto
      have 1: "x # xs = [] @ x # xs" by simp
      have 4: "select_loop (x # xs) (b, s) = (Some (vod_id x), score x)"
        using True select_loop_none[OF le] by simp
      have 2: "\<forall>y\<in>set ([]::vod_row list). score y < score x" by simp
      show ?thesis using 1 2 4 le True by blast
    qed
  next
    case False
    with Cons.prems have hi: "\<exists>r\<in>set xs. score r > s" by auto
    from Cons.IH[OF hi, of b]
    obtain pre r post where p: "xs = pre @ r # post"
      "select_loop xs (b, s) = (Some (vod_id r), score r)"
      "\<forall>y\<in>set pre. score y < score r" "\<forall>y\<in>set post. score y \<le> score r" "score r > s"
      by blast
    have 1: "x # xs = (x # pre) @ r # post" using p by simp
    have 2: "\<forall>y\<in>set (x # pre). score y < score r" using p False by auto
    have 4: "select_loop (x # xs) (b, s) = (Some (vod_id r), score r)" using p False by simp
    show ?thesis using 1 2 4 p(4,5) by blast
  qed
qed

text \<open>
  Claim C6 at a failing input. \<open>dup_a\<close> and \<open>dup_b\<close> have the same title and year.
  \<open>dup_a\<close> has play data and a poster, \<open>dup_b\<close> has a poster only. The time stamp of
  \<open>dup_b\<close> adds 1700 to its score, so \<open>dup_b\<close> scores 1800 against 1100,
  \<open>select_primary_record\<close> returns \<open>dup_b\<close>, and after the merge the row that survives is
  \<open>mt_7\<close>, the row without play data of its own.
\<close>

theorem select_primary_record_poster_only_wins:
  "truthy (vod_play_url dup_a) \<and> truthy (vod_pic dup_a) \<and> \<not> truthy (vod_play_url dup_b)
   \<and> \<not> truthy (vod_blurb dup_b) \<and> truthy (vod_pic dup_b) \<and> key_of dup_a = key_of dup_b
   \<and> score dup_a = 1100 \<and> score dup_b = 1800
   \<and> find_duplicate_groups db_far = [((''Foo'', Some ''2024''), [1, 2])]
   \<and> select_primary_record db_far [1, 2] = Some (vod_id dup_b)
   \<and> map res_unique_id (sc_vod (fst (auto_merge db_far 1700000100))) = [''mt_7'']"
  by code_simp

section \<open>The merge pass\<close>

text \<open>
  Claim C1 at a failing input. The two rows of \<open>db_old\<close> form one duplicate group. Both
  score below \<open>-1\<close>, the start value of \<open>best_score\<close>, so \<open>select_primary_record\<close> returns
  \<open>None\<close>, the merge of the group raises on the NOT NULL column of the merge log, and
  \<open>auto_merge\<close> leaves the database as it was: both rows remain and no log entry is written.
\<close>

theorem auto_merge_keeps_unscored_group:
  "find_duplicate_groups db_old = [((''Foo'', Some ''1969''), [1, 2])]
   \<and> select_primary_record db_old [1, 2] = None
   \<and> merge_duplicate_group_with_log db_old 1700000000 [1, 2] ''Foo|1969'' = Inl IntegrityError
   \<and> auto_merge db_old 1700000000 = (db_old, \<lparr>groups_merged = 0, records_deleted = 0\<rparr>)
   \<and> map key_of (sc_vod (fst (auto_merge db_old 1700000000)))
       = [(''Foo'', Some ''1969''), (''Foo'', Some ''1969'')]"
proof -
  have g: "find_duplicate_groups db_old = [((''Foo'', Some ''1969''), [1, 2])]"
    by code_simp
  have s: "select_primary_record db_old [1, 2] = None"
    by code_simp
  have m: "merge_duplicate_group_with_log db_old 1700000000 [1, 2] k = Inl IntegrityError" for k
    by (simp add: merge_duplicate_group_with_log_def s)
  have a: "auto_merge db_old 1700000000 = (db_old, \<lparr>groups_merged = 0, records_deleted = 0\<rparr>)"
    by (simp add: auto_merge_def g m merge_key_of_def)
  have k: "map key_of (sc_vod db_old) = [(''Foo'', Some ''1969''), (''Foo'', Some ''1969'')]"
    by (simp add: db_old_def old_a_def old_b_def blank_row_def empty_db_def key_of_def)
  show ?thesis using g s m a k by simp
qed

section \<open>Ingestion\<close>

text \<open>
  Claim C3 at a failing input. After the first ingestion of the payload the store has the
  row \<open>wj_1\<close> under the id 1 with its search entry. After the second ingestion of the same
  payload the row has the id 2, and the search table holds two entries: the new one and the
  entry of the id 1, which no row has any more.
\<close>

theorem ingest_twice_orphans_search_entry:
  "map vod_id (sc_vod ingest_once) = [1] \<and> sc_search ingest_once = [(1, ''Foo'')]
   \<and> map res_unique_id (sc_vod ingest_twice) = [''wj_1'']
   \<and> map vod_id (sc_vod ingest_twice) = [2]
   \<and> sc_search ingest_twice = [(1, ''Foo''), (2, ''Foo'')]"
  by code_simp

section \<open>Fetching\<close>

text \<open>A list fetch makes one request and never sleeps, whatever the answer.\<close>

lemma fetch_data_single_attempt:
  "trace (snd (fetch_data_from_source source page hours n))
     = trace n @ [Requested (ListRequest (res_url source) page hours)]
   \<and> pending (snd (fetch_data_from_source source page hours n)) = tl (pending n)"
  by (auto simp: fetch_data_from_source_def http_get_def split: list.splits outcome.splits)

text \<open>
  Claim C4 at a failing input. The upstream fails twice and would answer the third
  request. The list fetch of page 1 gives up after the first failure, without a retry and
  without a delay; the detail fetch, on the same upstream, retries after 2 and 4 seconds
  and returns the answer.
\<close>

theorem fetch_data_gives_up_after_first_failure:
  "fetch_data_from_source source_wj 1 None net_retry
     = (None, \<lparr>pending = [TransportFailure, Response page_one],
               trace = [Requested (ListRequest ''http://wj.example/api'' 1 None)]\<rparr>)
   \<and> fetch_detail_data_from_source source_wj [''1''] net_retry
     = (Some page_one,
        \<lparr>pending = [],
         trace = [Requested (DetailRequest ''http://wj.example/api'' [''1'']), Slept 2,
                  Requested (DetailRequest ''http://wj.example/api'' [''1'']), Slept 4,
                  Requested (DetailRequest ''http://wj.example/api'' [''1''])]\<rparr>)"
  by code_simp

section \<open>Pagination\<close>

text \<open>
  Claim C5 at a failing input. The source reports two pages, so the page limit is 2. Page 1
  is ingested, the fetch of page 2 fails, and the loop goes on to request page 3, beyond
  the limit, and ingests what it returns.
\<close>

theorem collect_from_source_passes_page_limit:
  "page_range None True ChooseAll 2 = Some (1, 2)
   \<and> (case collect_from_source 10 main_db0 source_wj None True ChooseAll 1700000100 net_skip of
         None \<Rightarrow> False
       | Some (d, n, r) \<Rightarrow>
           r = Inr 2
           \<and> map res_unique_id (sc_vod d) = [''wj_1'', ''wj_3'']
           \<and> trace n = [Requested (ListRequest ''http://wj.example/api'' 1 None), Slept (1 / 2),
                        Requested (ListRequest ''http://wj.example/api'' 2 None),
                        Requested (ListRequest ''http://wj.example/api'' 3 None)])"
  by code_simp

section \<open>Publishing the working snapshot\<close>











lemma mtime_of_names: "q \<notin> set (map fst fs) \<Longrightarrow> map_of fs q = None"
  by (simp add: map_of_eq_None_iff)
















section \<open>A run that changes nothing\<close>











section \<open>Strict mapping\<close>

text \<open>An entry whose category is not mapped leaves the store and the insert count alone.\<close>

lemma ingest_one_unmapped:
  "unmapped source vod \<Longrightarrow>
   ingest_one source now vod (d, i, s) = (d, i, if named vod then s + 1 else s)"
  by (auto simp: ingest_one_def unmapped_def named_def Let_def split: option.splits)

text \<open>What an entry does to the store and to the insert count does not depend on the miss count.\<close>

lemma ingest_one_mapped:
  "\<not> unmapped source vod \<Longrightarrow>
   ingest_one source now vod (d, i, s)
     = (fst (ingest_one source now vod (d, i, 0)), fst (snd (ingest_one source now vod (d, i, 0))), s)"
  by (auto simp: ingest_one_def unmapped_def store_row_def Let_def split: option.splits)

lemma fold_ingest_one_filter:
  "fst (fold (ingest_one source now) vod_list (d, i, s))
     = fst (fold (ingest_one source now) (filter (\<lambda>v. \<not> unmapped source v) vod_list) (d, i, s2))
   \<and> fst (snd (fold (ingest_one source now) vod_list (d, i, s)))
     = fst (snd (fold (ingest_one source now) (filter (\<lambda>v. \<not> unmapped source v) vod_list) (d, i, s2)))
   \<and> snd (snd (fold (ingest_one source now) vod_list (d, i, s)))
     = s + length (filter (\<lambda>v. unmapped source v \<and> named v) vod_list)"
proof (induction vod_list arbitrary: d i s s2)
  case Nil
  then show ?case by simp
next
  case (Cons v vs)
  show ?case
  proof (cases "unmapped source v")
    case True
    show ?thesis
      using Cons.IH[of d i "if named v then s + 1 else s" s2] True
      by (simp add: ingest_one_unmapped)
  next
    case False
    define d' where "d' = fst (ingest_one source now v (d, i, 0))"
    define i' where "i' = fst (snd (ingest_one source now v (d, i, 0)))"
    have 1: "ingest_one source now v (d, i, s) = (d', i', s)"
      unfolding d'_def i'_def by (rule ingest_one_mapped[OF False])
    have 2: "ingest_one source now v (d, i, s2) = (d', i', s2)"
      unfolding d'_def i'_def by (rule ingest_one_mapped[OF False])
    show ?thesis
      using Cons.IH[of d' i' s s2] False by (simp add: 1 2)
  qed
qed

text \<open>The identities in the store after an entry: those before, and that of a mapped entry.\<close>

lemma res_unique_id_build_row:
  "res_unique_id (build_row source now vod uid vname type_id time_hits hits) = uid"
  by (simp add: build_row_def)

lemma ingest_one_identities:
  "set (map res_unique_id (sc_vod (fst (ingest_one source now vod (d, i, s)))))
     \<subseteq> set (map res_unique_id (sc_vod d))
        \<union> (if unmapped source vod then {} else {res_id_prefix source @ remote_vod_id_of vod})"
  by (auto simp: ingest_one_def unmapped_def store_row_def Let_def insert_or_replace_vod_def
        insert_or_replace_search_def res_unique_id_build_row split: option.splits)

lemma fold_ingest_one_identities:
  "set (map res_unique_id (sc_vod (fst (fold (ingest_one source now) vod_list (d, i, s)))))
     \<subseteq> set (map res_unique_id (sc_vod d))
        \<union> {res_id_prefix source @ remote_vod_id_of v | v. v \<in> set vod_list \<and> \<not> unmapped source v}"
proof (induction vod_list arbitrary: d i s)
  case Nil
  then show ?case by simp
next
  case (Cons v vs)
  obtain d' i' s' where st: "ingest_one source now v (d, i, s) = (d', i', s')"
    by (cases "ingest_one source now v (d, i, s)") auto
  have 1: "set (map res_unique_id (sc_vod d'))
     \<subseteq> set (map res_unique_id (sc_vod d))
        \<union> (if unmapped source v then {} else {res_id_prefix source @ remote_vod_id_of v})"
    using ingest_one_identities[of source now v d i s] st by simp
  have 2: "set (map res_unique_id (sc_vod (fst (fold (ingest_one source now) vs (d', i', s')))))
     \<subseteq> set (map res_unique_id (sc_vod d'))
        \<union> {res_id_prefix source @ remote_vod_id_of v | v. v \<in> set vs \<and> \<not> unmapped source v}"
    by (rule Cons.IH)
  have 3: "fold (ingest_one source now) (v # vs) (d, i, s) = fold (ingest_one source now) vs (d', i', s')"
    by (simp add: st)
  show ?case unfolding 3
  proof
    fix x
    assume "x \<in> set (map res_unique_id (sc_vod (fst (fold (ingest_one source now) vs (d', i', s')))))"
    with 2 consider "x \<in> set (map res_unique_id (sc_vod d'))"
      | "\<exists>u. x = res_id_prefix source @ remote_vod_id_of u \<and> u \<in> set vs \<and> \<not> unmapped source u"
      by blast
    then show "x \<in> set (map res_unique_id (sc_vod d))
        \<union> {res_id_prefix source @ remote_vod_id_of u | u. u \<in> set (v # vs) \<and> \<not> unmapped source u}"
    proof cases
      case 1
      with \<open>set (map res_unique_id (sc_vod d'))
     \<subseteq> set (map res_unique_id (sc_vod d))
        \<union> (if unmapped source v then {} else {res_id_prefix source @ remote_vod_id_of v})\<close>
      have "x \<in> set (map res_unique_id (sc_vod d))
            \<or> (\<not> unmapped source v \<and> x = res_id_prefix source @ remote_vod_id_of v)"
        by (auto split: if_splits)
      then show ?thesis by auto
    next
      case 2
      then show ?thesis by auto
    qed
  qed
qed

text \<open>
  Claim C7, as stated, fails in three ways. The entry \<open>raw_blank\<close> has the unmapped
  category 99 and a title of blanks: it is left out before its category is looked up, and
  the miss count stays 0. The source \<open>source_nomap\<close> has an empty mapping: \<open>Bar\<close> is
  unmapped, nothing is ingested and the miss count stays 0. The store \<open>db_bar\<close> holds
  \<open>wj_2\<close> from a time when the category 99 was mapped: the entry \<open>Bar\<close> is now unmapped and
  counted, and its canonical record is still in the store.
\<close>

theorem parse_and_insert_vod_data_miss_count:
  "unmapped source_wj raw_blank
   \<and> snd (snd (parse_and_insert_vod_data main_db0 source_wj 1700000100 [raw_blank])) = 0
   \<and> unmapped source_nomap raw_bar
   \<and> snd (snd (parse_and_insert_vod_data main_db0 source_nomap 1700000100 [raw_bar])) = 0
   \<and> sc_vod (fst (parse_and_insert_vod_data main_db0 source_nomap 1700000100 [raw_bar])) = []
   \<and> unmapped source_wj raw_bar
   \<and> map res_unique_id (sc_vod db_bar) = [''wj_2'']
   \<and> snd (snd (parse_and_insert_vod_data db_bar source_wj 1700000100 [raw_bar])) = 1
   \<and> map res_unique_id (sc_vod (fst (parse_and_insert_vod_data db_bar source_wj 1700000100 [raw_bar])))
       = [''wj_2'']"
  by code_simp

text \<open>
  Claim C7, amended. The entries of a payload whose category is not mapped are dropped:
  the store and the insert count after the ingestion are those of the ingestion of the
  payload without them. So an identity that the store did not hold, and that only
  unmapped entries of the payload have, is not in the store afterwards. When the mapping
  is not empty, the miss count is the number of the unmapped entries that have an id and a
  title; when it is empty, nothing is ingested and nothing is counted.
\<close>

theorem parse_and_insert_vod_data_strict_mapping:
  "fst (parse_and_insert_vod_data d source now vod_list)
     = fst (parse_and_insert_vod_data d source now (filter (\<lambda>v. \<not> unmapped source v) vod_list))
   \<and> fst (snd (parse_and_insert_vod_data d source now vod_list))
     = fst (snd (parse_and_insert_vod_data d source now
                   (filter (\<lambda>v. \<not> unmapped source v) vod_list)))
   \<and> ((\<forall>r\<in>set (sc_vod d). res_unique_id r \<noteq> uid)
        \<and> (\<forall>v\<in>set vod_list. res_id_prefix source @ remote_vod_id_of v = uid \<longrightarrow> unmapped source v)
       \<longrightarrow> (\<forall>r\<in>set (sc_vod (fst (parse_and_insert_vod_data d source now vod_list))).
              res_unique_id r \<noteq> uid))
   \<and> (res_mapping source \<noteq> [] \<longrightarrow>
        snd (snd (parse_and_insert_vod_data d source now vod_list))
          = length (filter (\<lambda>v. unmapped source v \<and> named v) vod_list))
   \<and> (res_mapping source = [] \<longrightarrow> parse_and_insert_vod_data d source now vod_list = (d, 0, 0))"
proof (intro conjI impI)
  show "fst (parse_and_insert_vod_data d source now vod_list)
     = fst (parse_and_insert_vod_data d source now (filter (\<lambda>v. \<not> unmapped source v) vod_list))"
    using fold_ingest_one_filter[of source now vod_list d 0 0 0]
    by (simp add: parse_and_insert_vod_data_def)
  show "fst (snd (parse_and_insert_vod_data d source now vod_list))
     = fst (snd (parse_and_insert_vod_data d source now
                   (filter (\<lambda>v. \<not> unmapped source v) vod_list)))"
    using fold_ingest_one_filter[of source now vod_list d 0 0 0]
    by (simp add: parse_and_insert_vod_data_def)
  show "snd (snd (parse_and_insert_vod_data d source now vod_list))
          = length (filter (\<lambda>v. unmapped source v \<and> named v) vod_list)"
    if "res_mapping source \<noteq> []"
    using fold_ingest_one_filter[of source now vod_list d 0 0 0] that
    by (simp add: parse_and_insert_vod_data_def)
  show "parse_and_insert_vod_data d source now vod_list = (d, 0, 0)" if "res_mapping source = []"
    using that by (simp add: parse_and_insert_vod_data_def)
  show "\<forall>r\<in>set (sc_vod (fst (parse_and_insert_vod_data d source now vod_list))).
              res_unique_id r \<noteq> uid"
    if h: "(\<forall>r\<in>set (sc_vod d). res_unique_id r \<noteq> uid)
        \<and> (\<forall>v\<in>set vod_list. res_id_prefix source @ remote_vod_id_of v = uid \<longrightarrow> unmapped source v)"
  proof (cases "res_mapping source = []")
    case True
    then show ?thesis using h by (simp add: parse_and_insert_vod_data_def)
  next
    case False
    have "uid \<notin> set (map res_unique_id (sc_vod d))
        \<union> {res_id_prefix source @ remote_vod_id_of v | v. v \<in> set vod_list \<and> \<not> unmapped source v}"
      using h by auto
    then have "uid \<notin> set (map res_unique_id
                  (sc_vod (fst (fold (ingest_one source now) vod_list (d, 0, 0)))))"
      using fold_ingest_one_identities[of source now vod_list d 0 0] by blast
    then show ?thesis using False by (auto simp: parse_and_insert_vod_data_def)
  qed
qed

theorem parse_and_insert_vod_data_strict_mapping_witness:
  "res_mapping source_wj \<noteq> []
   \<and> ''wj_2'' \<notin> set (map res_unique_id (sc_vod main_db0))
   \<and> filter (\<lambda>v. res_id_prefix source_wj @ remote_vod_id_of v = ''wj_2'' \<and> \<not> unmapped source_wj v)
        [raw_foo, raw_bar, raw_blank] = []
   \<and> fst (parse_and_insert_vod_data main_db0 source_wj 1700000100 [raw_foo, raw_bar, raw_blank])
       = fst (parse_and_insert_vod_data main_db0 source_wj 1700000100 [raw_foo])
   \<and> fst (snd (parse_and_insert_vod_data main_db0 source_wj 1700000100 [raw_foo, raw_bar, raw_blank]))
       = 1
   \<and> snd (snd (parse_and_insert_vod_data main_db0 source_wj 1700000100 [raw_foo, raw_bar, raw_blank]))
       = 1
   \<and> ''wj_2'' \<notin> set (map res_unique_id (sc_vod (fst
         (parse_and_insert_vod_data main_db0 source_wj 1700000100 [raw_foo, raw_bar, raw_blank]))))"
proof -
  have m: "res_mapping source_wj \<noteq> []" by code_simp
  have a: "''wj_2'' \<notin> set (map res_unique_id (sc_vod main_db0))" by code_simp
  have b: "filter (\<lambda>v. res_id_prefix source_wj @ remote_vod_id_of v = ''wj_2'' \<and> \<not> unmapped source_wj v)
        [raw_foo, raw_bar, raw_blank] = []" by code_simp
  have f: "filter (\<lambda>v. \<not> unmapped source_wj v) [raw_foo, raw_bar, raw_blank] = [raw_foo]"
    by code_simp
  have c: "length (filter (\<lambda>v. unmapped source_wj v \<and> named v) [raw_foo, raw_bar, raw_blank]) = 1"
    by code_simp
  have i: "fst (snd (parse_and_insert_vod_data main_db0 source_wj 1700000100 [raw_foo])) = 1"
    by code_simp
  have a': "\<forall>r\<in>set (sc_vod main_db0). res_unique_id r \<noteq> ''wj_2''"
    using a by (force simp: image_iff)
  have b': "\<forall>v\<in>set [raw_foo, raw_bar, raw_blank].
              res_id_prefix source_wj @ remote_vod_id_of v = ''wj_2'' \<longrightarrow> unmapped source_wj v"
    using b[unfolded filter_empty_conv] by blast
  from parse_and_insert_vod_data_strict_mapping
         [of main_db0 source_wj 1700000100 "[raw_foo, raw_bar, raw_blank]" "''wj_2''"]
       m a' b'
  have "fst (parse_and_insert_vod_data main_db0 source_wj 1700000100 [raw_foo, raw_bar, raw_blank])
       = fst (parse_and_insert_vod_data main_db0 source_wj 1700000100
                (filter (\<lambda>v. \<not> unmapped source_wj v) [raw_foo, raw_bar, raw_blank]))"
    and "fst (snd (parse_and_insert_vod_data main_db0 source_wj 1700000100 [raw_foo, raw_bar, raw_blank]))
       = fst (snd (parse_and_insert_vod_data main_db0 source_wj 1700000100
                (filter (\<lambda>v. \<not> unmapped source_wj v) [raw_foo, raw_bar, raw_blank])))"
    and "snd (snd (parse_and_insert_vod_data main_db0 source_wj 1700000100 [raw_foo, raw_bar, raw_blank]))
       = length (filter (\<lambda>v. unmapped source_wj v \<and> named v) [raw_foo, raw_bar, raw_blank])"
    and "\<forall>r\<in>set (sc_vod (fst (parse_and_insert_vod_data main_db0 source_wj 1700000100
                                  [raw_foo, raw_bar, raw_blank]))). res_unique_id r \<noteq> ''wj_2''"
    by blast+
  then show ?thesis using m a b f c i by auto
qed

end
